theory Spec2Isabelle
  imports Complex_Main
begin

section \<open>The transcription route: data\<close>

text \<open>
  The route handler \<^verbatim>\<open>POST\<close> receives an upload, stores it in a temporary file, runs
  the transcription script on it, asks a language model for a critique of the transcript,
  appends the combined result to the history directory, removes the temporary file and
  answers with the combined result. Everything the handler obtains from outside (the
  request, the clock, the file system's verdicts, the child process, the language model)
  is a field of an environment record; everything it does to the outside is recorded in
  a world record that is passed along and returned.
\<close>

subsection \<open>JSON values and JavaScript objects\<close>

text \<open>
  A value produced by \<^verbatim>\<open>JSON.parse\<close>. An object is the list of its properties in
  insertion order.
\<close>

datatype json =
    JNull
  | JBool bool
  | JNum real
  | JStr string
  | JArr "json list"
  | JObj "(string \<times> json) list"

type_synonym object = "(string \<times> json) list"

text \<open>JavaScript truthiness of a JSON value (the operand of \<^verbatim>\<open>!\<close> and \<^verbatim>\<open>||\<close>).\<close>

fun truthy :: "json \<Rightarrow> bool" where
  "truthy JNull = False"
| "truthy (JBool b) = b"
| "truthy (JNum x) = (x \<noteq> 0)"
| "truthy (JStr s) = (s \<noteq> [])"
| "truthy (JArr xs) = True"
| "truthy (JObj ps) = True"

text \<open>
  Reading a property: \<^verbatim>\<open>result.success\<close>. A missing property reads as
  \<^verbatim>\<open>undefined\<close>, here \<open>None\<close>, which is falsy.
\<close>

definition get_prop :: "object \<Rightarrow> string \<Rightarrow> json option" where
  "get_prop obj k = map_of obj k"

definition truthy_prop :: "object \<Rightarrow> string \<Rightarrow> bool" where
  "truthy_prop obj k = (case get_prop obj k of None \<Rightarrow> False | Some v \<Rightarrow> truthy v)"

text \<open>
  Defining a property in an object literal after a spread,
  \<^verbatim>\<open>{ ...result, sentiment }\<close>: an existing key keeps its place and takes the new
  value, a new key goes last.
\<close>

fun set_prop :: "string \<Rightarrow> json \<Rightarrow> object \<Rightarrow> object" where
  "set_prop k v [] = [(k, v)]"
| "set_prop k v ((k', v') # ps) =
     (if k' = k then (k, v) # ps else (k', v') # set_prop k v ps)"

subsection \<open>Decimal numerals in template strings\<close>

definition digit :: "nat \<Rightarrow> char" where
  "digit d = ''0123456789'' ! d"

fun string_of_nat :: "nat \<Rightarrow> string" where
  "string_of_nat n =
     (if n < 10 then [digit n] else string_of_nat (n div 10) @ [digit (n mod 10)])"

declare string_of_nat.simps [simp del]

definition string_of_int :: "int \<Rightarrow> string" where
  "string_of_int i = (if i < 0 then CHR ''-'' # string_of_nat (nat (- i)) else string_of_nat (nat i))"

subsection \<open>Paths, files, the world\<close>

text \<open>
  A path is the list of its components; \<^verbatim>\<open>join(dir, name)\<close> appends a component.
  \<^verbatim>\<open>'/tmp'\<close> is \<open>[''tmp'']\<close>.
\<close>

type_synonym path = "string list"

datatype content =
    Binary string
  | JsonText json

datatype effect =
    WriteFile path
  | Unlink path
  | Mkdir path
  | Spawn path "path list"
  | ChatCompletion "json option"

datatype log_entry =
    Info string
  | Err string string

record world =
  files :: "path \<rightharpoonup> content"
  trace :: "effect list"
  console :: "log_entry list"

definition info :: "string \<Rightarrow> world \<Rightarrow> world" where
  "info label w = w\<lparr>console := console w @ [Info label]\<rparr>"

definition err :: "string \<Rightarrow> string \<Rightarrow> world \<Rightarrow> world" where
  "err label msg w = w\<lparr>console := console w @ [Err label msg]\<rparr>"

definition did :: "effect \<Rightarrow> world \<Rightarrow> world" where
  "did x w = w\<lparr>trace := trace w @ [x]\<rparr>"

subsection \<open>The request and the environment\<close>

record upload =
  file_name :: string
  file_type :: string
  bytes :: string

datatype form_value =
    FText string
  | FFile upload

text \<open>
  What the child process did: it could not be started (the \<^verbatim>\<open>error\<close> event, with the
  error's message), or it closed with an exit code (\<open>None\<close> when a signal ended it), its
  whole standard output and its whole standard error.
\<close>

datatype proc_outcome =
    SpawnFailed string
  | Closed "int option" string string

text \<open>
  The environment of one request. An \<open>option\<close> verdict is \<open>None\<close> when the operation
  succeeds and \<open>Some message\<close> when it rejects with an \<^verbatim>\<open>Error\<close> of that message.
  \<^item> \<open>form_data\<close>: \<^verbatim>\<open>request.formData()\<close>, the fields in order, or the message of
    its rejection;
  \<^item> \<open>now_audio\<close>, \<open>now_history\<close>: the two readings of \<^verbatim>\<open>Date.now()\<close>;
  \<^item> \<open>write_audio\<close>, \<open>mkdir_history\<close>, \<open>write_history\<close>, \<open>unlink_try\<close>,
    \<open>unlink_catch\<close>: the file system's verdicts on the write of the temporary file, the
    \<^verbatim>\<open>mkdir\<close> and the write of the history record, and the two \<^verbatim>\<open>unlink\<close> calls
    (the one that ends the \<^verbatim>\<open>try\<close> block and the one in the \<^verbatim>\<open>catch\<close> block);
  \<^item> \<open>json_parse\<close>: \<^verbatim>\<open>JSON.parse\<close> on a text that begins with a brace, giving the
    object's properties or the text of the \<^verbatim>\<open>SyntaxError\<close> as \<^verbatim>\<open>${error}\<close> prints it;
  \<^item> \<open>js_String\<close>: JavaScript's conversion of a JSON value that is not a string to a
    string (what \<^verbatim>\<open>new Error(v)\<close> stores as the message);
  \<^item> \<open>completion\<close>: the reply of \<^verbatim>\<open>openai.chat.completions.create\<close>, the content of
    the first choice (\<open>None\<close> for \<^verbatim>\<open>null\<close>), or the message of the error thrown.
\<close>

record env =
  cwd :: path
  form_data :: "string + (string \<times> form_value) list"
  now_audio :: nat
  write_audio :: "string option"
  python :: proc_outcome
  json_parse :: "string \<Rightarrow> string + object"
  js_String :: "json \<Rightarrow> string"
  completion :: "string + string option"
  mkdir_history :: "string option"
  now_history :: nat
  write_history :: "string option"
  unlink_try :: "string option"
  unlink_catch :: "string option"

record response =
  status :: nat
  body :: json

section \<open>The transcription route: operations\<close>

subsection \<open>The file system\<close>

text \<open>
  \<^verbatim>\<open>unlink(path)\<close>: rejects when the file system refuses, or when there is no such
  file; otherwise the file is gone. The attempt is recorded either way.
\<close>

definition unlink :: "string option \<Rightarrow> path \<Rightarrow> world \<Rightarrow> string option \<times> world" where
  "unlink verdict p w =
     (let w1 = did (Unlink p) w in
      case verdict of
        Some msg \<Rightarrow> (Some msg, w1)
      | None \<Rightarrow>
          if files w1 p = None then (Some ''ENOENT: no such file or directory'', w1)
          else (None, w1\<lparr>files := (files w1)(p := None)\<rparr>))"

text \<open>
  \<^verbatim>\<open>writeFile(path, data)\<close> with the default flag: the file is created, or an existing
  file of that name is replaced. A rejected write is taken to leave the file system as
  it was.
\<close>

definition writeFile :: "string option \<Rightarrow> path \<Rightarrow> content \<Rightarrow> world \<Rightarrow> string option \<times> world" where
  "writeFile verdict p c w =
     (let w1 = did (WriteFile p) w in
      case verdict of
        Some msg \<Rightarrow> (Some msg, w1)
      | None \<Rightarrow> (None, w1\<lparr>files := (files w1)(p \<mapsto> c)\<rparr>))"

subsection \<open>runPythonScript\<close>

text \<open>
  \<^verbatim>\<open>stdout.match(/\{[\s\S]*\}/)\<close>: the text from the first opening brace to the last
  closing brace after it, when there is one.
\<close>

definition json_match :: "string \<Rightarrow> string option" where
  "json_match out =
     (let s = dropWhile (\<lambda>c. c \<noteq> CHR ''{'') out;
          r = dropWhile (\<lambda>c. c \<noteq> CHR ''}'') (rev s)
      in if r = [] then None else Some (rev r))"

text \<open>The exit code as \<^verbatim>\<open>${code}\<close> prints it.\<close>

definition code_text :: "int option \<Rightarrow> string" where
  "code_text code = (case code of None \<Rightarrow> ''null'' | Some c \<Rightarrow> string_of_int c)"

text \<open>
  What the promise of \<^verbatim>\<open>runPythonScript\<close> settles to: \<open>Inl\<close> the message of the
  error it rejects with, \<open>Inr\<close> the parsed object it resolves to.
\<close>

definition python_result :: "env \<Rightarrow> string + object" where
  "python_result e =
     (case python e of
        SpawnFailed msg \<Rightarrow> Inl msg
      | Closed code out errs \<Rightarrow>
          if code \<noteq> Some 0 then
            Inl (''Python process exited with code '' @ code_text code @ [CHR 0x0A] @ ''Error: '' @ errs)
          else
            (case json_match out of
               None \<Rightarrow> Inl ''Failed to parse Python output: Error: No JSON found in output''
             | Some txt \<Rightarrow>
                 (case json_parse e txt of
                    Inl syntax_error \<Rightarrow> Inl (''Failed to parse Python output: '' @ syntax_error)
                  | Inr obj \<Rightarrow> Inr obj)))"

text \<open>
  The console lines of \<^verbatim>\<open>runPythonScript\<close>. The chunks of standard error are logged
  as they arrive; here they are one entry.
\<close>

definition python_console :: "env \<Rightarrow> world \<Rightarrow> world" where
  "python_console e w =
     (case python e of
        SpawnFailed msg \<Rightarrow> err ''Failed to start Python process:'' msg w
      | Closed code out errs \<Rightarrow>
          (let w1 = (if errs = [] then w else err ''Python stderr:'' errs w);
               w2 = info ''Python process exited with code:'' w1
           in case python_result e of
                Inr obj \<Rightarrow> w2
              | Inl msg \<Rightarrow> if code \<noteq> Some 0 then w2 else err ''Raw stdout:'' out w2))"

definition runPythonScript :: "env \<Rightarrow> path \<Rightarrow> path \<Rightarrow> world \<Rightarrow> (string + object) \<times> world" where
  "runPythonScript e scriptPath audioPath w =
     (let w1 = info ''Starting Python process with:'' w;
          w2 = did (Spawn (cwd e @ [''venv'', ''bin'', ''python'']) [scriptPath, audioPath]) w1
      in (python_result e, python_console e w2))"

subsection \<open>analyzeSentiment\<close>

text \<open>
  The argument is \<^verbatim>\<open>result.transcription\<close>, whatever the script printed there. The
  reply is the environment's; an empty or missing content becomes the fixed text.
\<close>

definition sentiment_text :: "string option \<Rightarrow> string" where
  "sentiment_text content =
     (case content of
        None \<Rightarrow> ''No sentiment analysis available''
      | Some s \<Rightarrow> if s = [] then ''No sentiment analysis available'' else s)"

definition analyzeSentiment :: "env \<Rightarrow> json option \<Rightarrow> world \<Rightarrow> (string + string) \<times> world" where
  "analyzeSentiment e text w =
     (let w1 = did (ChatCompletion text) w in
      case completion e of
        Inl msg \<Rightarrow> (Inl msg, w1)
      | Inr content \<Rightarrow> (Inr (sentiment_text content), w1))"

subsection \<open>saveAnalysisToHistory\<close>

text \<open>
  The record is written to \<^verbatim>\<open>history/analysis_<Date.now()>.json\<close> under the working
  directory. Whatever \<^verbatim>\<open>mkdir\<close> or \<^verbatim>\<open>writeFile\<close> throws is caught and logged; the
  function returns normally in every case.
\<close>

definition history_path :: "env \<Rightarrow> path" where
  "history_path e = (cwd e @ [''history'']) @ [''analysis_'' @ string_of_nat (now_history e) @ ''.json'']"

definition saveAnalysisToHistory :: "env \<Rightarrow> json \<Rightarrow> world \<Rightarrow> world" where
  "saveAnalysisToHistory e result w =
     (let w1 = did (Mkdir (cwd e @ [''history''])) w in
      case mkdir_history e of
        Some msg \<Rightarrow> err ''Failed to save analysis to history:'' msg w1
      | None \<Rightarrow>
          (case writeFile (write_history e) (history_path e) (JsonText result) w1 of
             (Some msg, w2) \<Rightarrow> err ''Failed to save analysis to history:'' msg w2
           | (None, w2) \<Rightarrow> w2))"

subsection \<open>POST\<close>

text \<open>
  The message of \<^verbatim>\<open>new Error(result.error || 'Transcription failed')\<close>.
\<close>

definition failure_message :: "env \<Rightarrow> object \<Rightarrow> string" where
  "failure_message e result =
     (case get_prop result ''error'' of
        None \<Rightarrow> ''Transcription failed''
      | Some v \<Rightarrow>
          if \<not> truthy v then ''Transcription failed''
          else (case v of JStr s \<Rightarrow> s | _ \<Rightarrow> js_String e v))"

definition tempAudioPath :: "env \<Rightarrow> path" where
  "tempAudioPath e = [''tmp''] @ [''audio-'' @ string_of_nat (now_audio e) @ ''.wav'']"

definition finalResult :: "object \<Rightarrow> string \<Rightarrow> object" where
  "finalResult result sentiment = set_prop ''sentiment'' (JStr sentiment) result"

definition no_audio :: response where
  "no_audio = \<lparr>status = 400, body = JObj [(''error'', JStr ''No audio file provided'')]\<rparr>"

definition ok :: "object \<Rightarrow> response" where
  "ok obj = \<lparr>status = 200, body = JObj obj\<rparr>"

definition server_error :: "string \<Rightarrow> response" where
  "server_error msg = \<lparr>status = 500, body = JObj [(''error'', JStr msg)]\<rparr>"

text \<open>
  The \<^verbatim>\<open>try\<close> block ends in a response (\<open>Inr\<close>) or in a thrown error, of which the
  message is kept (\<open>Inl\<close>; every value thrown here is an \<^verbatim>\<open>Error\<close>). The second
  component of its outcome is the variable \<^verbatim>\<open>tempAudioPath\<close> at that moment.

  First the part of the block that follows the check of the form field, for an uploaded
  file: from the write of the temporary file to the response.
\<close>

definition transcribe :: "env \<Rightarrow> upload \<Rightarrow> world \<Rightarrow> (string + response) \<times> path option \<times> world" where
  "transcribe e audioFile w =
     (let w1 = info ''Received audio file:'' w;
          tmp = tempAudioPath e
      in case writeFile (write_audio e) tmp (Binary (bytes audioFile)) w1 of
           (Some msg, w2) \<Rightarrow> (Inl msg, Some tmp, w2)
         | (None, w2) \<Rightarrow>
             (let w3 = info ''Saved temporary file at:'' w2;
                  pythonScript = cwd e @ [''python_backend''] @ [''transcribe.py''];
                  w4 = info ''Starting transcription with Python script at:'' w3
              in case runPythonScript e pythonScript tmp w4 of
                   (Inl msg, w5) \<Rightarrow> (Inl msg, Some tmp, w5)
                 | (Inr result, w5) \<Rightarrow>
                     (let w6 = info ''Raw transcription result:'' w5 in
                      if \<not> truthy_prop result ''success''
                      then (Inl (failure_message e result), Some tmp, w6)
                      else
                        (let w7 = info ''Transcription successful, starting sentiment analysis...'' w6
                         in case analyzeSentiment e (get_prop result ''transcription'') w7 of
                              (Inl msg, w8) \<Rightarrow> (Inl msg, Some tmp, w8)
                            | (Inr sentiment, w8) \<Rightarrow>
                                (let final = finalResult result sentiment;
                                     w9 = saveAnalysisToHistory e (JObj final) w8
                                 in case unlink (unlink_try e) tmp w9 of
                                      (Some msg, w10) \<Rightarrow> (Inl msg, Some tmp, w10)
                                    | (None, w10) \<Rightarrow>
                                        (Inr (ok final), Some tmp,
                                         info ''Cleaned up temporary file:'' w10))))))"

text \<open>
  The whole \<^verbatim>\<open>try\<close> block. The form field \<^verbatim>\<open>audio\<close> is missing (\<^verbatim>\<open>null\<close>), a
  text field or a file. The empty text is falsy like \<^verbatim>\<open>null\<close>; any other text passes
  the check and fails at \<^verbatim>\<open>audioFile.arrayBuffer()\<close>, before the path is assigned.
\<close>

definition try_block :: "env \<Rightarrow> world \<Rightarrow> (string + response) \<times> path option \<times> world" where
  "try_block e w =
     (let w1 = info ''Processing audio transcription request...'' w in
      case form_data e of
        Inl msg \<Rightarrow> (Inl msg, None, w1)
      | Inr formData \<Rightarrow>
          (case map_of formData ''audio'' of
             None \<Rightarrow> (Inr no_audio, None, info ''No audio file provided'' w1)
           | Some (FText s) \<Rightarrow>
               if s = [] then (Inr no_audio, None, info ''No audio file provided'' w1)
               else (Inl ''audioFile.arrayBuffer is not a function'', None,
                     info ''Received audio file:'' w1)
           | Some (FFile audioFile) \<Rightarrow> transcribe e audioFile w1))"

text \<open>
  The \<^verbatim>\<open>catch\<close> block: log, remove the temporary file when the path was assigned
  (a failure of this removal is caught and logged), answer 500 with the message.
\<close>

definition catch_block :: "env \<Rightarrow> string \<Rightarrow> path option \<Rightarrow> world \<Rightarrow> response \<times> world" where
  "catch_block e msg tmp w =
     (let w1 = err ''Error in transcription process:'' msg w;
          w2 = (case tmp of
                  None \<Rightarrow> w1
                | Some p \<Rightarrow>
                    (case unlink (unlink_catch e) p w1 of
                       (None, w') \<Rightarrow> info ''Cleaned up temporary file:'' w'
                     | (Some cleanupError, w') \<Rightarrow>
                         err ''Failed to clean up temporary file:'' cleanupError w'))
      in (server_error msg, w2))"

text \<open>
  The junction of \<^verbatim>\<open>try\<close> and \<^verbatim>\<open>catch\<close>: a response returned by the \<^verbatim>\<open>try\<close> block
  is the handler's response; a thrown error is handed to the \<^verbatim>\<open>catch\<close> block.
\<close>

definition finish :: "env \<Rightarrow> (string + response) \<times> path option \<times> world \<Rightarrow> response \<times> world" where
  "finish e r =
     (case r of
        (Inr resp, tmp, w') \<Rightarrow> (resp, w')
      | (Inl msg, tmp, w') \<Rightarrow> catch_block e msg tmp w')"

definition POST :: "env \<Rightarrow> world \<Rightarrow> response \<times> world" where
  "POST e w = finish e (try_block e w)"

subsection \<open>The response and the effects of one request\<close>

text \<open>
  The response written as a function of the environment alone; \<open>POST_response\<close> below
  proves that it is the response of \<open>POST\<close> from every world.
\<close>

definition response_of :: "env \<Rightarrow> response" where
  "response_of e =
     (case form_data e of
        Inl msg \<Rightarrow> server_error msg
      | Inr formData \<Rightarrow>
          (case map_of formData ''audio'' of
             None \<Rightarrow> no_audio
           | Some (FText s) \<Rightarrow>
               if s = [] then no_audio
               else server_error ''audioFile.arrayBuffer is not a function''
           | Some (FFile audioFile) \<Rightarrow>
               (case write_audio e of
                  Some msg \<Rightarrow> server_error msg
                | None \<Rightarrow>
                    (case python_result e of
                       Inl msg \<Rightarrow> server_error msg
                     | Inr result \<Rightarrow>
                         if \<not> truthy_prop result ''success''
                         then server_error (failure_message e result)
                         else
                           (case completion e of
                              Inl msg \<Rightarrow> server_error msg
                            | Inr content \<Rightarrow>
                                (case unlink_try e of
                                   Some msg \<Rightarrow> server_error msg
                                 | None \<Rightarrow> ok (finalResult result (sentiment_text content))))))))"

text \<open>The external actions one request adds to the trace.\<close>

definition effects_of :: "env \<Rightarrow> world \<Rightarrow> effect list" where
  "effects_of e w = drop (length (trace w)) (trace (snd (POST e w)))"

text \<open>The names of the properties of a JSON object, in order; none for any other value.\<close>

definition keys_of :: "json \<Rightarrow> string list" where
  "keys_of v = (case v of JObj ps \<Rightarrow> map fst ps | _ \<Rightarrow> [])"

section \<open>The result view: how scores are displayed\<close>

text \<open>
  \<^verbatim>\<open>TranscriptionResult.tsx\<close> declares the types of the analysis it renders and shows
  the per-speaker scores in two places: among the speaker's analytics (the block
  "Performance Scores") and in a card of its own (the block "<speaker> Performance").
  Numbers are real numbers here; the rounding of floating point is not modelled. A
  \<^verbatim>\<open>Record<string, T>\<close> is the list of its entries in the order of
  \<^verbatim>\<open>Object.entries\<close>.
\<close>

record SpeakerSegment =
  seg_text :: string
  seg_start :: real
  seg_end :: real
  seg_speaker :: string
  seg_confidence :: real

record Pause =
  duration :: real
  position :: real

record SpeakerStats =
  word_count :: int
  total_duration :: real
  words_per_minute :: real
  average_confidence :: real
  pauses :: "Pause list"

record SpeakerAnalysis =
  speaker_segments :: "SpeakerSegment list"
  speaker_stats :: "(string \<times> SpeakerStats) list"
  total_speakers :: int

record HistoricalScore =
  score :: real
  timestamp :: string

record SpeakerHistory =
  current_pace :: real
  historical_avg_pace :: real
  difference :: real
  historical_scores :: "HistoricalScore list"
  average_historical_score :: real

record SpeakerScores =
  pace_score :: real
  confidence_score :: real
  pause_score :: real
  overall_score :: real
  historical_comparison :: "SpeakerHistory option"

text \<open>
  The field \<^verbatim>\<open>patterns\<close> of the interface \<^verbatim>\<open>HistoricalComparison\<close>; a successful
  structure is a list of pairs of speaker and duration.
\<close>

record Patterns =
  avg_pace :: real
  avg_duration :: real
  successful_structures :: "(string \<times> real) list list"
  top_scores :: "HistoricalScore list"

text \<open>
  The interface \<^verbatim>\<open>Comparison\<close> with the optional \<^verbatim>\<open>historical_comparison\<close> that the
  properties add to it. Its fields \<^verbatim>\<open>overall_score\<close> and \<^verbatim>\<open>historical_comparison\<close>
  are \<open>conversation_score\<close> and \<open>conversation_history\<close> here, the two names being
  taken by the fields of \<open>SpeakerScores\<close>.
\<close>

record Comparison =
  conversation_score :: real
  speaker_scores :: "(string \<times> SpeakerScores) list"
  improvement_suggestions :: "(string \<times> string list) list"
  conversation_history :: "Patterns option"

record TranscriptionResultProps =
  transcription :: string
  sentiment :: string
  speaker_analysis :: "SpeakerAnalysis option"
  comparison :: "Comparison option"

text \<open>\<^verbatim>\<open>Math.round\<close>: the nearest integer, a half rounding up.\<close>

definition Math_round :: "real \<Rightarrow> int" where
  "Math_round x = \<lfloor>x + 1 / 2\<rfloor>"

text \<open>
  What a card shows: \<open>Percent n\<close> is the text \<^verbatim>\<open>n%\<close>, \<open>OutOfTen x\<close> is the text
  \<^verbatim>\<open>x/10\<close>.
\<close>

datatype shown =
    Percent int
  | OutOfTen real

text \<open>
  The cards of the block "Performance Scores": each score times 100, rounded, as a
  percentage.
\<close>

definition performance_scores :: "SpeakerScores \<Rightarrow> (string \<times> shown) list" where
  "performance_scores scores =
     [(''Pace Score'', Percent (Math_round (pace_score scores * 100))),
      (''Confidence Score'', Percent (Math_round (confidence_score scores * 100))),
      (''Pause Score'', Percent (Math_round (pause_score scores * 100)))]"

text \<open>
  The block is rendered inside the analytics of each speaker of
  \<^verbatim>\<open>speaker_analysis.speaker_stats\<close>, when \<^verbatim>\<open>comparison\<close> is there and has scores for
  that speaker.
\<close>

definition analytics_scores :: "TranscriptionResultProps \<Rightarrow> (string \<times> (string \<times> shown) list) list" where
  "analytics_scores props =
     (case speaker_analysis props of
        None \<Rightarrow> []
      | Some analysis \<Rightarrow>
          (case comparison props of
             None \<Rightarrow> []
           | Some cmp \<Rightarrow>
               concat (map (\<lambda>(speaker, stats).
                          case map_of (speaker_scores cmp) speaker of
                            None \<Rightarrow> []
                          | Some scores \<Rightarrow> [(speaker, performance_scores scores)])
                        (speaker_stats analysis))))"

text \<open>
  The cards of the block "<speaker> Performance": each score as it is, followed by
  \<^verbatim>\<open>/10\<close>.
\<close>

definition speaker_performance :: "SpeakerScores \<Rightarrow> (string \<times> shown) list" where
  "speaker_performance scores =
     [(''Pace Score'', OutOfTen (pace_score scores)),
      (''Confidence Score'', OutOfTen (confidence_score scores)),
      (''Pause Score'', OutOfTen (pause_score scores)),
      (''Overall Score'', OutOfTen (overall_score scores))]"

text \<open>The block is rendered for every entry of \<^verbatim>\<open>comparison.speaker_scores\<close>.\<close>

definition performance_cards :: "TranscriptionResultProps \<Rightarrow> (string \<times> (string \<times> shown) list) list" where
  "performance_cards props =
     (case comparison props of
        None \<Rightarrow> []
      | Some cmp \<Rightarrow>
          map (\<lambda>(speaker, scores). (speaker, speaker_performance scores)) (speaker_scores cmp))"

text \<open>The share of the full scale that a displayed text tells its reader.\<close>

fun share_shown :: "shown \<Rightarrow> real" where
  "share_shown (Percent n) = real_of_int n / 100"
| "share_shown (OutOfTen x) = x / 10"

section \<open>The scoring engine\<close>

text \<open>
  Modelled from the spec: the scoring engine (section 4.3) and its configuration
  (section 6). The engine runs in the transcription script \<^verbatim>\<open>python_backend/transcribe.py\<close>,
  which the route spawns and whose text is not among the sources; only the types of its
  input and output are declared, in \<^verbatim>\<open>TranscriptionResult.tsx\<close>. Numbers are real
  numbers: the formulas are the spec's, without the rounding of floating point.
\<close>

record ScoringConfig =
  ideal_pace_wpm :: real
  pace_bounds :: "real \<times> real"
  weights :: "real \<times> real \<times> real"
  pause_threshold_s :: real
  history_top_n :: nat
  history_top_k :: nat

text \<open>Modelled from the spec: the defaults of the recognized options (section 6).\<close>

definition default_config :: ScoringConfig where
  "default_config =
     \<lparr>ideal_pace_wpm = 150, pace_bounds = (80, 220), weights = (4 / 10, 3 / 10, 3 / 10),
      pause_threshold_s = 1, history_top_n = 5, history_top_k = 3\<rparr>"

text \<open>
  Modelled from the spec: the half range of the pace bounds, 70 for the default bounds
  80 and 220, as in the spec's example \<^verbatim>\<open>1 - |75-150|/70\<close>.
\<close>

definition half_range :: "ScoringConfig \<Rightarrow> real" where
  "half_range cfg = (snd (pace_bounds cfg) - fst (pace_bounds cfg)) / 2"

text \<open>
  Modelled from the spec: \<^verbatim>\<open>pace_score = max(0, 1 - |wpm - ideal| / half_range)\<close>.
\<close>

definition pace_score_of :: "ScoringConfig \<Rightarrow> real \<Rightarrow> real" where
  "pace_score_of cfg wpm = max 0 (1 - \<bar>wpm - ideal_pace_wpm cfg\<bar> / half_range cfg)"

text \<open>Modelled from the spec: \<^verbatim>\<open>confidence_score = average_confidence\<close> directly.\<close>

definition confidence_score_of :: "SpeakerStats \<Rightarrow> real" where
  "confidence_score_of stats = average_confidence stats"

text \<open>
  Modelled from the spec: the pause score starts at 1, loses
  \<^verbatim>\<open>min(0.5, 0.05 * count_of_pauses)\<close> and
  \<^verbatim>\<open>min(0.5, sum_of_pause_durations / total_duration)\<close>, and is floored at 0.
\<close>

definition pause_score_of :: "SpeakerStats \<Rightarrow> real" where
  "pause_score_of stats =
     max 0 (1 - min (1 / 2) (5 / 100 * real (length (pauses stats)))
              - min (1 / 2) (sum_list (map duration (pauses stats)) / total_duration stats))"

text \<open>
  Modelled from the spec: the weighted combination
  \<^verbatim>\<open>overall_score = 0.4*pace_score + 0.3*confidence_score + 0.3*pause_score\<close>, with the
  configured weights in place of the defaults.
\<close>

definition overall_score_of :: "ScoringConfig \<Rightarrow> real \<Rightarrow> real \<Rightarrow> real \<Rightarrow> real" where
  "overall_score_of cfg p c q =
     (case weights cfg of (wp, wc, wq) \<Rightarrow> wp * p + wc * c + wq * q)"

text \<open>
  Modelled from the spec: the engine's fatal error \<^verbatim>\<open>InvalidConfigError\<close> (section 7).
  \<open>DivisionByZero\<close> is not in the spec: it marks the two inputs at which a formula of
  the spec divides by zero and the spec gives no value, so that no result here rests on
  the value of \<open>x / 0\<close> in HOL.
\<close>

datatype engine_error =
    InvalidConfigError
  | DivisionByZero

text \<open>
  Modelled from the spec: a configuration is invalid when its weights do not sum to 1 or
  its bounds are inverted (sections 4.3 and 7).
\<close>

definition valid_config :: "ScoringConfig \<Rightarrow> bool" where
  "valid_config cfg =
     ((case weights cfg of (wp, wc, wq) \<Rightarrow> wp + wc + wq = 1)
      \<and> \<not> snd (pace_bounds cfg) < fst (pace_bounds cfg))"

text \<open>
  Modelled from the spec: the statistics of one speaker as section 3 defines them:
  a positive total duration (every segment has \<^verbatim>\<open>end > start\<close>), the mean of
  confidences that lie in [0,1], pauses that are clamped gaps and so never negative.
\<close>

definition valid_stats :: "SpeakerStats \<Rightarrow> bool" where
  "valid_stats stats =
     (0 < total_duration stats
      \<and> 0 \<le> average_confidence stats \<and> average_confidence stats \<le> 1
      \<and> list_all (\<lambda>p. 0 \<le> duration p) (pauses stats))"

text \<open>
  Modelled from the spec: \<^verbatim>\<open>score(stats, config) -> Score\<close>, the four numbers of a
  score. The suggestions are left out: the spec does not say how far from the ideal
  "far below" and "far above" are.
\<close>

definition score_speaker :: "SpeakerStats \<Rightarrow> ScoringConfig \<Rightarrow> engine_error + SpeakerScores" where
  "score_speaker stats cfg =
     (if \<not> valid_config cfg then Inl InvalidConfigError
      else if half_range cfg = 0 \<or> total_duration stats = 0 then Inl DivisionByZero
      else
        (let p = pace_score_of cfg (words_per_minute stats);
             c = confidence_score_of stats;
             q = pause_score_of stats
         in Inr \<lparr>pace_score = p, confidence_score = c, pause_score = q,
                 overall_score = overall_score_of cfg p c q,
                 historical_comparison = None\<rparr>))"

text \<open>Whether the three weights are each at least 0.\<close>

definition nonnegative_weights :: "ScoringConfig \<Rightarrow> bool" where
  "nonnegative_weights cfg = (case weights cfg of (wp, wc, wq) \<Rightarrow> 0 \<le> wp \<and> 0 \<le> wc \<and> 0 \<le> wq)"

text \<open>Whether the four numbers of a score lie in the closed interval from 0 to 1.\<close>

definition in_unit_interval :: "real \<Rightarrow> bool" where
  "in_unit_interval x = (0 \<le> x \<and> x \<le> 1)"

definition scores_in_bounds :: "SpeakerScores \<Rightarrow> bool" where
  "scores_in_bounds sc =
     (in_unit_interval (pace_score sc) \<and> in_unit_interval (confidence_score sc)
      \<and> in_unit_interval (pause_score sc) \<and> in_unit_interval (overall_score sc))"

section \<open>The shape of the result that the specification describes\<close>

text \<open>
  From the specification's words, for comparison with what the handler returns: an
  object with the transcript text, the sentiment text, a \<^verbatim>\<open>speaker_analysis\<close> with
  \<^verbatim>\<open>speaker_segments\<close>, \<^verbatim>\<open>speaker_stats\<close> and \<^verbatim>\<open>total_speakers\<close>, and a
  \<^verbatim>\<open>comparison\<close> with \<^verbatim>\<open>overall_score\<close>, \<^verbatim>\<open>speaker_scores\<close> (four numbers for
  each speaker) and \<^verbatim>\<open>improvement_suggestions\<close>. Only the presence of the fields is
  asked, under the names the repository uses; further fields are not counted against
  the shape.
\<close>

definition has_keys :: "string list \<Rightarrow> json \<Rightarrow> bool" where
  "has_keys ks v = (case v of JObj ps \<Rightarrow> list_all (\<lambda>k. map_of ps k \<noteq> None) ks | _ \<Rightarrow> False)"

definition is_text :: "json option \<Rightarrow> bool" where
  "is_text v = (case v of Some (JStr s) \<Rightarrow> True | _ \<Rightarrow> False)"

definition speaker_scores_shape :: "json \<Rightarrow> bool" where
  "speaker_scores_shape v =
     (case v of
        JObj ps \<Rightarrow>
          list_all (\<lambda>(speaker, scores).
            has_keys [''pace_score'', ''confidence_score'', ''pause_score'', ''overall_score''] scores) ps
      | _ \<Rightarrow> False)"

definition spec_output_shape :: "json \<Rightarrow> bool" where
  "spec_output_shape v =
     (case v of
        JObj ps \<Rightarrow>
          is_text (map_of ps ''transcription'')
          \<and> is_text (map_of ps ''sentiment'')
          \<and> (case map_of ps ''speaker_analysis'' of
                None \<Rightarrow> False
              | Some sa \<Rightarrow> has_keys [''speaker_segments'', ''speaker_stats'', ''total_speakers''] sa)
          \<and> (case map_of ps ''comparison'' of
                None \<Rightarrow> False
              | Some c \<Rightarrow>
                  has_keys [''overall_score'', ''speaker_scores'', ''improvement_suggestions''] c
                  \<and> (case c of
                        JObj cs \<Rightarrow>
                          (case map_of cs ''speaker_scores'' of
                             None \<Rightarrow> False
                           | Some ss \<Rightarrow> speaker_scores_shape ss)
                      | _ \<Rightarrow> False))
      | _ \<Rightarrow> False)"

section \<open>Sample requests\<close>

text \<open>
  Concrete environments on which the theorems below are instantiated: an upload of a
  small file, a script that prints a progress line and then a JSON object, a parser that
  knows the objects used here, a language model that answers, a file system that
  obeys.
\<close>

definition sample_json :: string where
  \<open>sample_json = ''{"success": true, "transcription": "hi"}''\<close>

definition sample_object :: object where
  "sample_object = [(''success'', JBool True), (''transcription'', JStr ''hi'')]"

definition segment_error_json :: string where
  \<open>segment_error_json = ''{"success": false, "kind": "InvalidSegmentError", "error": "invalid input"}''\<close>

definition segment_error_object :: object where
  "segment_error_object =
     [(''success'', JBool False), (''kind'', JStr ''InvalidSegmentError''),
      (''error'', JStr ''invalid input'')]"

definition config_error_json :: string where
  \<open>config_error_json = ''{"success": false, "kind": "InvalidConfigError", "error": "invalid input"}''\<close>

definition config_error_object :: object where
  "config_error_object =
     [(''success'', JBool False), (''kind'', JStr ''InvalidConfigError''),
      (''error'', JStr ''invalid input'')]"

definition sample_stdout :: string where
  "sample_stdout = ''Transcribing... '' @ sample_json"

definition segment_error_stdout :: string where
  "segment_error_stdout = ''Transcribing... '' @ segment_error_json"

definition config_error_stdout :: string where
  "config_error_stdout = ''Transcribing... '' @ config_error_json"

definition sample_parse :: "string \<Rightarrow> string + object" where
  "sample_parse txt =
     (if txt = sample_json then Inr sample_object
      else if txt = segment_error_json then Inr segment_error_object
      else if txt = config_error_json then Inr config_error_object
      else Inl ''SyntaxError: Unexpected token in JSON'')"

definition sample_upload :: upload where
  "sample_upload = \<lparr>file_name = ''call.wav'', file_type = ''audio/wav'', bytes = ''RIFF''\<rparr>"

definition sample_env :: env where
  "sample_env =
     \<lparr>cwd = [''srv'', ''app''],
      form_data = Inr [(''audio'', FFile sample_upload)],
      now_audio = 41,
      write_audio = None,
      python = Closed (Some 0) sample_stdout [],
      json_parse = sample_parse,
      js_String = (\<lambda>v. ''[object Object]''),
      completion = Inr (Some ''Overall Rating: 8''),
      mkdir_history = None,
      now_history = 42,
      write_history = None,
      unlink_try = None,
      unlink_catch = None\<rparr>"

definition empty_world :: world where
  "empty_world = \<lparr>files = Map.empty, trace = [], console = []\<rparr>"

text \<open>The same request when the script reports a failure of one kind or of the other.\<close>

definition segment_error_env :: env where
  "segment_error_env = sample_env\<lparr>python := Closed (Some 0) segment_error_stdout []\<rparr>"

definition config_error_env :: env where
  "config_error_env = sample_env\<lparr>python := Closed (Some 0) config_error_stdout []\<rparr>"

text \<open>The same request when the language model answers with another text.\<close>

definition other_reply_env :: env where
  "other_reply_env = sample_env\<lparr>completion := Inr (Some ''Overall Rating: 3'')\<rparr>"

text \<open>
  A history directory that already holds a record under the name that the sample
  request will use: the clock reads 42 again when the record is saved.
\<close>

definition earlier_record :: json where
  "earlier_record = JObj [(''success'', JBool True), (''transcription'', JStr ''an earlier call'')]"

definition clash_world :: world where
  "clash_world =
     \<lparr>files = [[''srv'', ''app'', ''history'', ''analysis_42.json''] \<mapsto> JsonText earlier_record],
      trace = [], console = []\<rparr>"

text \<open>Properties for the result view: one speaker, with statistics and scores.\<close>

definition sample_scores :: SpeakerScores where
  "sample_scores =
     \<lparr>pace_score = 1 / 2, confidence_score = 9 / 10, pause_score = 1,
      overall_score = 77 / 100, historical_comparison = None\<rparr>"

definition sample_props :: TranscriptionResultProps where
  "sample_props =
     \<lparr>transcription = ''hi'', sentiment = ''Overall Rating: 8'',
      speaker_analysis = Some
        \<lparr>speaker_segments =
           [\<lparr>seg_text = ''hi'', seg_start = 0, seg_end = 1, seg_speaker = ''SPEAKER_1'',
             seg_confidence = 9 / 10\<rparr>],
         speaker_stats =
           [(''SPEAKER_1'',
             \<lparr>word_count = 1, total_duration = 1, words_per_minute = 60,
              average_confidence = 9 / 10, pauses = []\<rparr>)],
         total_speakers = 1\<rparr>,
      comparison = Some
        \<lparr>conversation_score = 77, speaker_scores = [(''SPEAKER_1'', sample_scores)],
         improvement_suggestions = [(''SPEAKER_1'', [])], conversation_history = None\<rparr>\<rparr>"

text \<open>
  Inputs of the scoring engine: the speaker B of the spec's example scenario, a speaker
  at the ideal pace, and a configuration whose weights sum to 1 with two of them
  negative.
\<close>

definition speaker_B :: SpeakerStats where
  "speaker_B =
     \<lparr>word_count = 4, total_duration = 2, words_per_minute = 120,
      average_confidence = 95 / 100, pauses = []\<rparr>"

definition steady_stats :: SpeakerStats where
  "steady_stats =
     \<lparr>word_count = 150, total_duration = 60, words_per_minute = 150,
      average_confidence = 1 / 10, pauses = []\<rparr>"

definition skewed_config :: ScoringConfig where
  "skewed_config = default_config\<lparr>weights := (2, - 1 / 2, - 1 / 2)\<rparr>"

section \<open>Facts about the operations\<close>

subsection \<open>What each step does to the files, the trace and the console\<close>

lemma files_info [simp]: "files (info l w) = files w"
  by (simp add: info_def)

lemma files_err [simp]: "files (err l m w) = files w"
  by (simp add: err_def)

lemma files_did [simp]: "files (did x w) = files w"
  by (simp add: did_def)

lemma trace_info [simp]: "trace (info l w) = trace w"
  by (simp add: info_def)

lemma trace_err [simp]: "trace (err l m w) = trace w"
  by (simp add: err_def)

lemma trace_did [simp]: "trace (did x w) = trace w @ [x]"
  by (simp add: did_def)

lemma console_info [simp]: "console (info l w) = console w @ [Info l]"
  by (simp add: info_def)

lemma console_err [simp]: "console (err l m w) = console w @ [Err l m]"
  by (simp add: err_def)

lemma console_did [simp]: "console (did x w) = console w"
  by (simp add: did_def)

lemma files_python_console [simp]: "files (python_console e w) = files w"
  by (simp add: python_console_def Let_def split: proc_outcome.splits sum.splits)

lemma trace_python_console [simp]: "trace (python_console e w) = trace w"
  by (simp add: python_console_def Let_def split: proc_outcome.splits sum.splits)

lemma runPythonScript_fst [simp]: "fst (runPythonScript e s a w) = python_result e"
  by (simp add: runPythonScript_def Let_def)

lemma runPythonScript_files [simp]: "files (snd (runPythonScript e s a w)) = files w"
  by (simp add: runPythonScript_def Let_def)

lemma runPythonScript_trace [simp]:
  "trace (snd (runPythonScript e s a w)) =
     trace w @ [Spawn (cwd e @ [''venv'', ''bin'', ''python'']) [s, a]]"
  by (simp add: runPythonScript_def Let_def)

lemma analyzeSentiment_fst [simp]:
  "fst (analyzeSentiment e t w) =
     (case completion e of Inl msg \<Rightarrow> Inl msg | Inr c \<Rightarrow> Inr (sentiment_text c))"
  by (simp add: analyzeSentiment_def Let_def split: sum.splits)

lemma analyzeSentiment_files [simp]: "files (snd (analyzeSentiment e t w)) = files w"
  by (simp add: analyzeSentiment_def Let_def split: sum.splits)

lemma analyzeSentiment_trace [simp]:
  "trace (snd (analyzeSentiment e t w)) = trace w @ [ChatCompletion t]"
  by (simp add: analyzeSentiment_def Let_def split: sum.splits)

lemma writeFile_fst [simp]: "fst (writeFile v p c w) = v"
  by (simp add: writeFile_def Let_def split: option.splits)

lemma writeFile_trace [simp]: "trace (snd (writeFile v p c w)) = trace w @ [WriteFile p]"
  by (simp add: writeFile_def Let_def split: option.splits)

lemma writeFile_files:
  "files (snd (writeFile v p c w)) = (if v = None then (files w)(p \<mapsto> c) else files w)"
  by (simp add: writeFile_def Let_def split: option.splits)

lemma unlink_fst:
  "fst (unlink v p w) =
     (case v of
        Some m \<Rightarrow> Some m
      | None \<Rightarrow> if files w p = None then Some ''ENOENT: no such file or directory'' else None)"
  by (simp add: unlink_def Let_def split: option.splits)

lemma unlink_trace [simp]: "trace (snd (unlink v p w)) = trace w @ [Unlink p]"
  by (simp add: unlink_def Let_def split: option.splits)

lemma unlink_files:
  "files (snd (unlink v p w)) = (if v = None then (files w)(p := None) else files w)"
  by (auto simp add: unlink_def Let_def split: option.splits)

lemma unlink_console [simp]: "console (snd (unlink v p w)) = console w"
  by (simp add: unlink_def Let_def split: option.splits)

text \<open>The history record and the temporary file never have the same path.\<close>

lemma history_path_neq_temp: "history_path e \<noteq> tempAudioPath e"
  by (cases "cwd e") (auto simp: history_path_def tempAudioPath_def)

lemma save_files_other:
  "p \<noteq> history_path e \<Longrightarrow> files (saveAnalysisToHistory e r w) p = files w p"
  by (simp add: saveAnalysisToHistory_def writeFile_def Let_def split: option.splits)

lemma save_files_temp [simp]:
  "files (saveAnalysisToHistory e r w) (tempAudioPath e) = files w (tempAudioPath e)"
  using history_path_neq_temp [of e] by (simp add: save_files_other)

lemma save_files_written:
  "mkdir_history e = None \<Longrightarrow> write_history e = None \<Longrightarrow>
   files (saveAnalysisToHistory e r w) (history_path e) = Some (JsonText r)"
  by (simp add: saveAnalysisToHistory_def writeFile_def Let_def)

lemma save_trace_eq [simp]:
  "trace (saveAnalysisToHistory e r w) =
     trace w @ Mkdir (cwd e @ [''history''])
       # (if mkdir_history e = None then [WriteFile (history_path e)] else [])"
  by (simp add: saveAnalysisToHistory_def writeFile_def Let_def split: option.splits)

lemma save_console:
  "console (saveAnalysisToHistory e r w) =
     console w @ (case mkdir_history e of
                    Some msg \<Rightarrow> [Err ''Failed to save analysis to history:'' msg]
                  | None \<Rightarrow>
                      (case write_history e of
                         Some msg \<Rightarrow> [Err ''Failed to save analysis to history:'' msg]
                       | None \<Rightarrow> []))"
  by (simp add: saveAnalysisToHistory_def writeFile_def Let_def split: option.splits)

lemma catch_fst [simp]: "fst (catch_block e msg tmp w) = server_error msg"
  by (simp add: catch_block_def Let_def)

lemma catch_trace [simp]:
  "trace (snd (catch_block e msg tmp w)) =
     trace w @ (case tmp of None \<Rightarrow> [] | Some p \<Rightarrow> [Unlink p])"
  by (simp add: catch_block_def Let_def unlink_def split: option.splits prod.splits)

lemma catch_files [simp]:
  "files (snd (catch_block e msg tmp w)) =
     (case tmp of
        None \<Rightarrow> files w
      | Some p \<Rightarrow> if unlink_catch e = None then (files w)(p := None) else files w)"
  by (auto simp add: catch_block_def Let_def unlink_def split: option.splits prod.splits)

lemma get_prop_set_prop:
  "get_prop (set_prop k v ps) k' = (if k' = k then Some v else get_prop ps k')"
  by (induction ps) (auto simp: get_prop_def)

text \<open>
  A save whose file name is not yet taken leaves every
  record of the directory as it was.
\<close>

lemma fresh_name_keeps_history:
  "files w (history_path e) = None \<Longrightarrow> files w p = Some c \<Longrightarrow>
   files (saveAnalysisToHistory e r w) p = Some c"
  by (cases "p = history_path e") (simp_all add: save_files_other)

subsection \<open>The handler on an uploaded file\<close>

lemmas stage_simps =
  finish_def transcribe_def Let_def case_prod_beta unlink_fst unlink_files writeFile_files

lemma transcribe_response:
  "fst (finish e (transcribe e f w)) =
     (case write_audio e of
        Some msg \<Rightarrow> server_error msg
      | None \<Rightarrow>
          (case python_result e of
             Inl msg \<Rightarrow> server_error msg
           | Inr result \<Rightarrow>
               if \<not> truthy_prop result ''success'' then server_error (failure_message e result)
               else
                 (case completion e of
                    Inl msg \<Rightarrow> server_error msg
                  | Inr content \<Rightarrow>
                      (case unlink_try e of
                         Some msg \<Rightarrow> server_error msg
                       | None \<Rightarrow> ok (finalResult result (sentiment_text content))))))"
  by (simp add: stage_simps split: option.splits sum.splits)

lemma transcribe_unlinks:
  "write_audio e = None \<Longrightarrow>
   \<exists>xs. trace (snd (finish e (transcribe e f w))) = trace w @ xs
        \<and> Unlink (tempAudioPath e) \<in> set xs"
  by (simp add: stage_simps split: option.splits sum.splits)

lemma transcribe_deletes:
  "write_audio e = None \<Longrightarrow> unlink_catch e = None \<Longrightarrow>
   files (snd (finish e (transcribe e f w))) (tempAudioPath e) = None"
  by (simp add: stage_simps split: option.splits sum.splits)

lemma POST_upload:
  "form_data e = Inr formData \<Longrightarrow> map_of formData ''audio'' = Some (FFile audioFile) \<Longrightarrow>
   POST e w = finish e (transcribe e audioFile (info ''Processing audio transcription request...'' w))"
  by (simp add: POST_def try_block_def Let_def)

text \<open>
  The handler touches two files at most: the temporary file and the history record of
  this request. Every other file is as it was when the handler returns.
\<close>

lemma transcribe_frame:
  "p \<noteq> tempAudioPath e \<Longrightarrow> p \<noteq> history_path e \<Longrightarrow>
   files (snd (finish e (transcribe e f w))) p = files w p"
  by (simp add: stage_simps save_files_other split: option.splits sum.splits)

lemma POST_frame:
  assumes "p \<noteq> tempAudioPath e" and "p \<noteq> history_path e"
  shows "files (snd (POST e w)) p = files w p"
proof (cases "form_data e")
  case (Inl msg)
  then show ?thesis
    by (simp add: POST_def try_block_def finish_def)
next
  case (Inr formData)
  show ?thesis
  proof (cases "map_of formData ''audio''")
    case None
    with Inr show ?thesis
      by (simp add: POST_def try_block_def finish_def)
  next
    case (Some v)
    show ?thesis
    proof (cases v)
      case (FText s)
      with Inr Some show ?thesis
        by (simp add: POST_def try_block_def finish_def Let_def)
    next
      case (FFile audioFile)
      with Inr Some show ?thesis
        using transcribe_frame [OF assms] by (simp add: POST_upload)
    qed
  qed
qed

subsection \<open>The response depends on the environment only\<close>

lemma POST_response: "fst (POST e w) = response_of e"
proof (cases "form_data e")
  case (Inl msg)
  then show ?thesis
    by (simp add: POST_def try_block_def finish_def response_of_def)
next
  case (Inr formData)
  show ?thesis
  proof (cases "map_of formData ''audio''")
    case None
    with Inr show ?thesis
      by (simp add: POST_def try_block_def finish_def response_of_def)
  next
    case (Some v)
    show ?thesis
    proof (cases v)
      case (FText s)
      with Inr Some show ?thesis
        by (simp add: POST_def try_block_def finish_def response_of_def)
    next
      case (FFile audioFile)
      let ?w = "info ''Processing audio transcription request...'' w"
      from Inr Some FFile have "POST e w = finish e (transcribe e audioFile ?w)"
        by (simp add: POST_upload)
      moreover have "response_of e = fst (finish e (transcribe e audioFile ?w))"
        unfolding transcribe_response using Inr Some FFile by (simp add: response_of_def)
      ultimately show ?thesis by simp
    qed
  qed
qed

lemma response_of_cong:
  assumes "form_data e' = form_data e" and "write_audio e' = write_audio e"
      and "python e' = python e" and "json_parse e' = json_parse e"
      and "js_String e' = js_String e"
      and "completion e' = completion e" and "unlink_try e' = unlink_try e"
  shows "response_of e' = response_of e"
proof -
  have py: "python_result e' = python_result e"
    unfolding python_result_def assms by (rule refl)
  have msg: "failure_message e' result = failure_message e result" for result
    unfolding failure_message_def assms by (rule refl)
  show ?thesis
    unfolding response_of_def assms py msg by (rule refl)
qed

subsection \<open>The sample requests evaluated\<close>

lemma sample_env_fields:
  "cwd sample_env = [''srv'', ''app'']"
  "form_data sample_env = Inr [(''audio'', FFile sample_upload)]"
  "now_audio sample_env = 41"
  "write_audio sample_env = None"
  "python sample_env = Closed (Some 0) sample_stdout []"
  "json_parse sample_env = sample_parse"
  "completion sample_env = Inr (Some ''Overall Rating: 8'')"
  "mkdir_history sample_env = None"
  "now_history sample_env = 42"
  "write_history sample_env = None"
  "unlink_try sample_env = None"
  "unlink_catch sample_env = None"
  by (simp_all add: sample_env_def)

lemma sample_match: "json_match sample_stdout = Some sample_json"
  by (simp add: json_match_def sample_json_def sample_stdout_def)

lemma segment_error_match: "json_match segment_error_stdout = Some segment_error_json"
  by (simp add: json_match_def segment_error_json_def segment_error_stdout_def)

lemma config_error_match: "json_match config_error_stdout = Some config_error_json"
  by (simp add: json_match_def config_error_json_def config_error_stdout_def)

lemma sample_texts_differ:
  "segment_error_json \<noteq> sample_json" "config_error_json \<noteq> sample_json"
  "config_error_json \<noteq> segment_error_json"
  by (simp_all add: segment_error_json_def config_error_json_def sample_json_def)

lemma sample_python_result:
  "python e = Closed (Some 0) sample_stdout errs \<Longrightarrow> json_parse e = sample_parse \<Longrightarrow>
   python_result e = Inr sample_object"
  by (simp add: python_result_def sample_match sample_parse_def)

lemma segment_error_result: "python_result segment_error_env = Inr segment_error_object"
  by (simp add: python_result_def segment_error_env_def sample_env_fields segment_error_match
        sample_parse_def sample_texts_differ)

lemma config_error_result: "python_result config_error_env = Inr config_error_object"
  by (simp add: python_result_def config_error_env_def sample_env_fields config_error_match
        sample_parse_def sample_texts_differ)

lemma sample_env_result: "python_result sample_env = Inr sample_object"
  by (rule sample_python_result) (simp_all add: sample_env_fields)

lemma sample_response:
  "fst (POST sample_env w) =
     \<lparr>status = 200,
      body = JObj [(''success'', JBool True), (''transcription'', JStr ''hi''),
                   (''sentiment'', JStr ''Overall Rating: 8'')]\<rparr>"
  by (simp add: POST_response response_of_def sample_env_result sample_env_fields
        sample_object_def truthy_prop_def get_prop_def ok_def finalResult_def sentiment_text_def)

lemma sample_paths:
  "tempAudioPath sample_env = [''tmp'', ''audio-41.wav'']"
  "history_path sample_env = [''srv'', ''app'', ''history'', ''analysis_42.json'']"
  by (simp_all add: tempAudioPath_def history_path_def sample_env_fields
        string_of_nat.simps digit_def)

lemma other_reply_response:
  "fst (POST other_reply_env w) =
     \<lparr>status = 200,
      body = JObj [(''success'', JBool True), (''transcription'', JStr ''hi''),
                   (''sentiment'', JStr ''Overall Rating: 3'')]\<rparr>"
proof -
  have "python_result other_reply_env = Inr sample_object"
    by (rule sample_python_result) (simp_all add: other_reply_env_def sample_env_fields)
  then show ?thesis
    by (simp add: POST_response response_of_def other_reply_env_def sample_env_fields
        sample_object_def truthy_prop_def get_prop_def ok_def finalResult_def sentiment_text_def)
qed

lemma error_env_fields:
  "form_data segment_error_env = Inr [(''audio'', FFile sample_upload)]"
  "write_audio segment_error_env = None"
  "form_data config_error_env = Inr [(''audio'', FFile sample_upload)]"
  "write_audio config_error_env = None"
  by (simp_all add: segment_error_env_def config_error_env_def sample_env_fields)

lemma segment_error_response:
  "fst (POST segment_error_env w) =
     \<lparr>status = 500, body = JObj [(''error'', JStr ''invalid input'')]\<rparr>"
  by (simp add: POST_response response_of_def segment_error_result error_env_fields
        segment_error_object_def truthy_prop_def get_prop_def server_error_def
        failure_message_def)

lemma config_error_response:
  "fst (POST config_error_env w) =
     \<lparr>status = 500, body = JObj [(''error'', JStr ''invalid input'')]\<rparr>"
  by (simp add: POST_response response_of_def config_error_result error_env_fields
        config_error_object_def truthy_prop_def get_prop_def server_error_def
        failure_message_def)

section \<open>The claims about the route handler\<close>

text \<open>
  C10. When the form data of the request has no field \<^verbatim>\<open>audio\<close>, the handler answers
  with status 400 and the message "No audio file provided", and does nothing else: the
  files are as they were (no temporary file, no history record) and no external action
  is started (no write, no child process, no call of the language model).
\<close>

theorem missing_audio_field:
  assumes "form_data e = Inr formData"
      and "map_of formData ''audio'' = None"
  shows "fst (POST e w) = \<lparr>status = 400, body = JObj [(''error'', JStr ''No audio file provided'')]\<rparr>
         \<and> files (snd (POST e w)) = files w
         \<and> effects_of e w = []"
  using assms
  by (simp add: effects_of_def POST_def finish_def try_block_def Let_def no_audio_def)

theorem missing_audio_field_witness:
  "form_data (sample_env\<lparr>form_data := Inr [(''title'', FText ''call'')]\<rparr>)
     = Inr [(''title'', FText ''call'')]
   \<and> map_of [(''title'', FText ''call'')] ''audio'' = None
   \<and> fst (POST (sample_env\<lparr>form_data := Inr [(''title'', FText ''call'')]\<rparr>) empty_world)
       = \<lparr>status = 400, body = JObj [(''error'', JStr ''No audio file provided'')]\<rparr>
   \<and> files (snd (POST (sample_env\<lparr>form_data := Inr [(''title'', FText ''call'')]\<rparr>) empty_world))
       = files empty_world
   \<and> effects_of (sample_env\<lparr>form_data := Inr [(''title'', FText ''call'')]\<rparr>) empty_world = []"
  using missing_audio_field
    [of "sample_env\<lparr>form_data := Inr [(''title'', FText ''call'')]\<rparr>"
        "[(''title'', FText ''call'')]" empty_world]
  by simp

text \<open>
  C9. For every request whose temporary audio file is written, the handler calls
  \<^verbatim>\<open>unlink\<close> on that file before it returns, on the path of success and on every path
  of error. The file is gone when the handler returns a success, and it is gone on every
  path unless the removal in the \<^verbatim>\<open>catch\<close> block itself fails; that failure is
  swallowed: whatever the verdict of that removal, the response is the same.
\<close>

theorem temporary_file_cleanup:
  assumes "form_data e = Inr formData"
      and "map_of formData ''audio'' = Some (FFile audioFile)"
      and "write_audio e = None"
  shows "Unlink (tempAudioPath e) \<in> set (effects_of e w)
         \<and> (status (fst (POST e w)) = 200 \<longrightarrow> files (snd (POST e w)) (tempAudioPath e) = None)
         \<and> (unlink_catch e = None \<longrightarrow> files (snd (POST e w)) (tempAudioPath e) = None)
         \<and> fst (POST (e\<lparr>unlink_catch := verdict\<rparr>) w) = fst (POST e w)"
proof -
  let ?w = "info ''Processing audio transcription request...'' w"
  have post: "POST e w = finish e (transcribe e audioFile ?w)"
    using assms(1,2) by (rule POST_upload)
  obtain xs where "trace (snd (POST e w)) = trace w @ xs"
    and "Unlink (tempAudioPath e) \<in> set xs"
    using transcribe_unlinks [OF assms(3), of audioFile ?w] post by auto
  then have attempted: "Unlink (tempAudioPath e) \<in> set (effects_of e w)"
    by (simp add: effects_of_def)
  have on_success:
    "status (fst (POST e w)) = 200 \<longrightarrow> files (snd (POST e w)) (tempAudioPath e) = None"
    unfolding post using assms(3)
    by (simp add: stage_simps server_error_def split: option.splits sum.splits)
  have on_error: "unlink_catch e = None \<longrightarrow> files (snd (POST e w)) (tempAudioPath e) = None"
    using transcribe_deletes [OF assms(3), of audioFile ?w] post by simp
  have "response_of (e\<lparr>unlink_catch := verdict\<rparr>) = response_of e"
    by (rule response_of_cong) simp_all
  then have swallowed: "fst (POST (e\<lparr>unlink_catch := verdict\<rparr>) w) = fst (POST e w)"
    by (simp add: POST_response)
  from attempted on_success on_error swallowed show ?thesis by blast
qed

theorem temporary_file_cleanup_witness:
  "form_data sample_env = Inr [(''audio'', FFile sample_upload)]
   \<and> map_of [(''audio'', FFile sample_upload)] ''audio'' = Some (FFile sample_upload)
   \<and> write_audio sample_env = None
   \<and> unlink_catch sample_env = None
   \<and> Unlink [''tmp'', ''audio-41.wav''] \<in> set (effects_of sample_env empty_world)
   \<and> status (fst (POST sample_env empty_world)) = 200
   \<and> files (snd (POST sample_env empty_world)) [''tmp'', ''audio-41.wav''] = None"
  using temporary_file_cleanup
    [of sample_env "[(''audio'', FFile sample_upload)]" sample_upload empty_world None]
  by (simp add: sample_env_fields sample_paths sample_response)

text \<open>
  C1. When the append to the history store fails (the \<^verbatim>\<open>mkdir\<close> or the write of the
  record rejects), a request that got as far as the append still answers with status 200
  and the assembled result; the response is the one of the same request with a working
  history store; the failure is a line on the error console.
\<close>

theorem history_failure_not_fatal:
  assumes "form_data e = Inr formData"
      and "map_of formData ''audio'' = Some (FFile audioFile)"
      and "write_audio e = None"
      and "python_result e = Inr result"
      and "truthy_prop result ''success''"
      and "completion e = Inr content"
      and "unlink_try e = None"
      and "mkdir_history e = Some msg \<or> (mkdir_history e = None \<and> write_history e = Some msg)"
  shows "fst (POST e w) = \<lparr>status = 200, body = JObj (finalResult result (sentiment_text content))\<rparr>
         \<and> fst (POST e w) = fst (POST (e\<lparr>mkdir_history := None, write_history := None\<rparr>) w)
         \<and> Err ''Failed to save analysis to history:'' msg \<in> set (console (snd (POST e w)))"
proof -
  have resp:
    "fst (POST e w) = \<lparr>status = 200, body = JObj (finalResult result (sentiment_text content))\<rparr>"
    using assms(1-7) by (simp add: POST_response response_of_def ok_def)
  have "response_of (e\<lparr>mkdir_history := None, write_history := None\<rparr>) = response_of e"
    by (rule response_of_cong) simp_all
  then have same:
    "fst (POST e w) = fst (POST (e\<lparr>mkdir_history := None, write_history := None\<rparr>) w)"
    by (simp add: POST_response)
  let ?w = "info ''Processing audio transcription request...'' w"
  have post: "POST e w = finish e (transcribe e audioFile ?w)"
    using assms(1,2) by (rule POST_upload)
  have logged: "Err ''Failed to save analysis to history:'' msg \<in> set (console (snd (POST e w)))"
    unfolding post using assms(3-8)
    by (auto simp add: stage_simps save_console)
  from resp same logged show ?thesis by blast
qed

theorem history_failure_not_fatal_witness:
  "form_data (sample_env\<lparr>write_history := Some ''ENOSPC: no space left on device''\<rparr>)
     = Inr [(''audio'', FFile sample_upload)]
   \<and> map_of [(''audio'', FFile sample_upload)] ''audio'' = Some (FFile sample_upload)
   \<and> python_result (sample_env\<lparr>write_history := Some ''ENOSPC: no space left on device''\<rparr>)
       = Inr sample_object
   \<and> truthy_prop sample_object ''success''
   \<and> mkdir_history (sample_env\<lparr>write_history := Some ''ENOSPC: no space left on device''\<rparr>) = None
   \<and> write_history (sample_env\<lparr>write_history := Some ''ENOSPC: no space left on device''\<rparr>)
       = Some ''ENOSPC: no space left on device''
   \<and> fst (POST (sample_env\<lparr>write_history := Some ''ENOSPC: no space left on device''\<rparr>) empty_world)
       = fst (POST sample_env empty_world)
   \<and> status (fst (POST (sample_env\<lparr>write_history := Some ''ENOSPC: no space left on device''\<rparr>) empty_world)) = 200
   \<and> Err ''Failed to save analysis to history:'' ''ENOSPC: no space left on device''
       \<in> set (console (snd (POST (sample_env\<lparr>write_history := Some ''ENOSPC: no space left on device''\<rparr>) empty_world)))"
proof -
  let ?e = "sample_env\<lparr>write_history := Some ''ENOSPC: no space left on device''\<rparr>"
  have py: "python_result ?e = Inr sample_object"
    by (rule sample_python_result) (simp_all add: sample_env_fields)
  have ok: "truthy_prop sample_object ''success''"
    by (simp add: truthy_prop_def get_prop_def sample_object_def)
  have same: "?e\<lparr>mkdir_history := None, write_history := None\<rparr> = sample_env"
    by (simp add: sample_env_def)
  have all:
    "fst (POST ?e empty_world)
       = \<lparr>status = 200, body = JObj (finalResult sample_object (sentiment_text (Some ''Overall Rating: 8'')))\<rparr>
     \<and> fst (POST ?e empty_world)
       = fst (POST (?e\<lparr>mkdir_history := None, write_history := None\<rparr>) empty_world)
     \<and> Err ''Failed to save analysis to history:'' ''ENOSPC: no space left on device''
         \<in> set (console (snd (POST ?e empty_world)))"
    by (rule history_failure_not_fatal [where formData = "[(''audio'', FFile sample_upload)]"
          and audioFile = sample_upload])
       (simp_all add: sample_env_fields py ok)
  then have answer: "status (fst (POST ?e empty_world)) = 200"
    by simp
  from all have unchanged: "fst (POST ?e empty_world) = fst (POST sample_env empty_world)"
    unfolding same by blast
  from all have logged:
    "Err ''Failed to save analysis to history:'' ''ENOSPC: no space left on device''
       \<in> set (console (snd (POST ?e empty_world)))"
    by blast
  have fields:
    "form_data ?e = Inr [(''audio'', FFile sample_upload)]"
    "map_of [(''audio'', FFile sample_upload)] ''audio'' = Some (FFile sample_upload)"
    "mkdir_history ?e = None"
    "write_history ?e = Some ''ENOSPC: no space left on device''"
    by (simp_all add: sample_env_fields)
  from fields py ok unchanged answer logged show ?thesis
    by blast
qed

text \<open>
  C6, as the specification states it: for fixed segments, configuration and history the
  output of two runs is identical, the timestamp apart. The response of the handler
  carries the text that the language model returns, and that text is not a function of
  the request: two runs that agree on the upload, on the output of the transcription
  script, on the clock and on the history directory, and differ in the reply of the
  language model alone, answer differently.
\<close>

theorem reply_changes_response:
  "fst (POST sample_env empty_world) \<noteq> fst (POST other_reply_env empty_world)"
  by (simp add: sample_response other_reply_response)

text \<open>
  C6, amended: the response is determined by the form data, the verdict on the write of
  the temporary file, the outcome of the transcription script (with the parser and the
  string conversion of the runtime), the reply of the language model and the verdict on
  the removal that ends the \<^verbatim>\<open>try\<close> block. Two runs that agree on these answer
  identically, whatever the two clock readings, the working directory, the verdicts of
  the history store and of the removal in the \<^verbatim>\<open>catch\<close> block, and the contents of the
  file system (the history among them).
\<close>

theorem response_determined:
  assumes "form_data e' = form_data e" and "write_audio e' = write_audio e"
      and "python e' = python e" and "json_parse e' = json_parse e"
      and "js_String e' = js_String e"
      and "completion e' = completion e" and "unlink_try e' = unlink_try e"
  shows "fst (POST e' w') = fst (POST e w)"
  using response_of_cong [OF assms] by (simp add: POST_response)

theorem response_determined_witness:
  "fst (POST (sample_env\<lparr>cwd := [''home''], now_audio := 7, now_history := 9,
                         mkdir_history := Some ''EACCES: permission denied''\<rparr>) clash_world)
     = fst (POST sample_env empty_world)"
  by (rule response_determined) simp_all

text \<open>
  C5, as the specification states it: a fatal error reaches the caller as a failure
  with a kind and a message, and the failure tells the kinds apart. The handler answers
  a failure with an object whose only field is \<^verbatim>\<open>error\<close>; a script that reports an
  \<^verbatim>\<open>InvalidSegmentError\<close> and one that reports an \<^verbatim>\<open>InvalidConfigError\<close> with the
  same message get the same response.
\<close>

theorem failure_carries_no_kind:
  "status (fst (POST segment_error_env empty_world)) = 500
   \<and> keys_of (body (fst (POST segment_error_env empty_world))) = [''error'']
   \<and> get_prop segment_error_object ''kind'' \<noteq> get_prop config_error_object ''kind''
   \<and> fst (POST segment_error_env empty_world) = fst (POST config_error_env empty_world)"
  by (simp add: segment_error_response config_error_response keys_of_def get_prop_def
        segment_error_object_def config_error_object_def)

text \<open>
  C5, amended: when the transcription script fails on an uploaded file (the process
  cannot be started, exits with a code other than 0, prints no parsable JSON, or prints
  an object whose \<^verbatim>\<open>success\<close> is falsy), the handler answers with status 500 and an
  object whose single field \<^verbatim>\<open>error\<close> is the message of the failure. The message is
  the text the script gave in \<^verbatim>\<open>error\<close>, or "Transcription failed" when it gave
  none; there is no field for the kind.
\<close>

theorem script_failure_is_500:
  assumes "form_data e = Inr formData"
      and "map_of formData ''audio'' = Some (FFile audioFile)"
      and "write_audio e = None"
      and "python_result e = Inl msg
           \<or> (\<exists>result. python_result e = Inr result \<and> \<not> truthy_prop result ''success''
                \<and> msg = failure_message e result)"
  shows "fst (POST e w) = \<lparr>status = 500, body = JObj [(''error'', JStr msg)]\<rparr>"
  using assms by (auto simp add: POST_response response_of_def server_error_def)

theorem script_failure_is_500_witness:
  "python_result config_error_env = Inr config_error_object
   \<and> \<not> truthy_prop config_error_object ''success''
   \<and> failure_message config_error_env config_error_object = ''invalid input''
   \<and> fst (POST config_error_env empty_world)
       = \<lparr>status = 500, body = JObj [(''error'', JStr ''invalid input'')]\<rparr>"
proof -
  have falsy: "\<not> truthy_prop config_error_object ''success''"
    by (simp add: truthy_prop_def get_prop_def config_error_object_def)
  have msg_eq: "failure_message config_error_env config_error_object = ''invalid input''"
    by (simp add: failure_message_def get_prop_def config_error_object_def)
  have "fst (POST config_error_env empty_world)
          = \<lparr>status = 500, body = JObj [(''error'', JStr ''invalid input'')]\<rparr>"
    by (rule script_failure_is_500 [where formData = "[(''audio'', FFile sample_upload)]"
          and audioFile = sample_upload])
       (use config_error_result falsy msg_eq in \<open>simp_all add: error_env_fields\<close>)
  with config_error_result falsy msg_eq show ?thesis
    by blast
qed

text \<open>
  C2, as the specification states it: every successful run returns an object with the
  transcript, the sentiment, a \<^verbatim>\<open>speaker_analysis\<close> and a \<^verbatim>\<open>comparison\<close> of the
  described shape. The sample request succeeds with status 200 and its result has
  neither \<^verbatim>\<open>speaker_analysis\<close> nor \<^verbatim>\<open>comparison\<close>: the script printed none, and the
  handler adds only \<^verbatim>\<open>sentiment\<close>.
\<close>

theorem success_without_analysis:
  "status (fst (POST sample_env empty_world)) = 200
   \<and> \<not> spec_output_shape (body (fst (POST sample_env empty_world)))"
  by (simp add: sample_response spec_output_shape_def)

text \<open>
  C2, amended: the result of every successful run (status 200) is the object that the
  transcription script printed, with \<^verbatim>\<open>success\<close> truthy, and with the field
  \<^verbatim>\<open>sentiment\<close> set to the text of the language model. Every other field, among them
  \<^verbatim>\<open>transcription\<close>, \<^verbatim>\<open>speaker_analysis\<close> and \<^verbatim>\<open>comparison\<close>, is in the result
  exactly as the script printed it, and is absent when the script printed none.
\<close>

theorem success_is_script_object_with_sentiment:
  assumes "status (fst (POST e w)) = 200"
  shows "\<exists>result content.
           python_result e = Inr result \<and> truthy_prop result ''success''
           \<and> completion e = Inr content
           \<and> body (fst (POST e w)) = JObj (finalResult result (sentiment_text content))
           \<and> get_prop (finalResult result (sentiment_text content)) ''sentiment''
               = Some (JStr (sentiment_text content))
           \<and> (\<forall>k. k \<noteq> ''sentiment'' \<longrightarrow>
                 get_prop (finalResult result (sentiment_text content)) k = get_prop result k)"
  using assms
  by (auto simp add: POST_response response_of_def server_error_def no_audio_def ok_def
        finalResult_def get_prop_set_prop
      split: sum.splits option.splits form_value.splits if_splits)

theorem success_is_script_object_with_sentiment_witness:
  "status (fst (POST sample_env empty_world)) = 200
   \<and> body (fst (POST sample_env empty_world))
       = JObj (finalResult sample_object (sentiment_text (Some ''Overall Rating: 8'')))
   \<and> get_prop (finalResult sample_object (sentiment_text (Some ''Overall Rating: 8''))) ''transcription''
       = get_prop sample_object ''transcription''
   \<and> get_prop (finalResult sample_object (sentiment_text (Some ''Overall Rating: 8''))) ''speaker_analysis''
       = None"
proof -
  have st: "status (fst (POST sample_env empty_world)) = 200"
    by (simp add: sample_response)
  from success_is_script_object_with_sentiment [OF st]
  obtain result content where
    "python_result sample_env = Inr result" and "completion sample_env = Inr content"
    and b: "body (fst (POST sample_env empty_world))
              = JObj (finalResult result (sentiment_text content))"
    and k: "\<forall>k. k \<noteq> ''sentiment'' \<longrightarrow>
                 get_prop (finalResult result (sentiment_text content)) k = get_prop result k"
    by blast
  then have r: "result = sample_object" and c: "content = Some ''Overall Rating: 8''"
    by (simp_all add: sample_env_result sample_env_fields)
  have "get_prop sample_object ''speaker_analysis'' = None"
    by (simp add: get_prop_def sample_object_def)
  with st b k show ?thesis
    unfolding r c by simp
qed

text \<open>
  C4. The claim: saving a result only creates a new record and never changes a record
  that is already there. The record is written under a name made of the clock reading
  alone, with a write that replaces an existing file. In a history directory that holds
  \<^verbatim>\<open>analysis_42.json\<close>, a request that is saved when the clock reads 42 succeeds and
  leaves its own result in that file: the earlier record is gone.
\<close>

theorem history_record_overwritten:
  "files clash_world [''srv'', ''app'', ''history'', ''analysis_42.json'']
     = Some (JsonText earlier_record)
   \<and> status (fst (POST sample_env clash_world)) = 200
   \<and> files (snd (POST sample_env clash_world)) [''srv'', ''app'', ''history'', ''analysis_42.json'']
     = Some (JsonText (JObj [(''success'', JBool True), (''transcription'', JStr ''hi''),
                             (''sentiment'', JStr ''Overall Rating: 8'')]))"
proof -
  let ?w = "info ''Processing audio transcription request...'' clash_world"
  have post: "POST sample_env clash_world = finish sample_env (transcribe sample_env sample_upload ?w)"
    by (rule POST_upload [where formData = "[(''audio'', FFile sample_upload)]"])
       (simp_all add: sample_env_fields)
  have "files (snd (POST sample_env clash_world)) (history_path sample_env)
      = Some (JsonText (JObj (finalResult sample_object (sentiment_text (Some ''Overall Rating: 8'')))))"
    unfolding post using history_path_neq_temp [of sample_env]
    by (simp add: stage_simps sample_env_fields sample_env_result save_files_written
          truthy_prop_def get_prop_def sample_object_def)
  then show ?thesis
    by (simp add: sample_paths sample_response clash_world_def finalResult_def
          sample_object_def sentiment_text_def)
qed

section \<open>The claim about the result view\<close>

text \<open>
  C3. The claim: each score field is shown on one scale, and a value on the scale from
  0 to 10 is the value on the scale from 0 to 1 times 10. For a speaker whose
  \<^verbatim>\<open>pace_score\<close> is 0.5 the block "Performance Scores" shows \<^verbatim>\<open>50%\<close>, half of the
  scale, and the block "<speaker> Performance" shows \<^verbatim>\<open>0.5/10\<close>, a twentieth of the
  scale: the same field on two scales, the second without the factor 10.
\<close>

theorem pace_score_shown_on_two_scales:
  "map_of (analytics_scores sample_props) ''SPEAKER_1''
     = Some [(''Pace Score'', Percent 50), (''Confidence Score'', Percent 90),
             (''Pause Score'', Percent 100)]
   \<and> map_of (performance_cards sample_props) ''SPEAKER_1''
     = Some [(''Pace Score'', OutOfTen (1 / 2)), (''Confidence Score'', OutOfTen (9 / 10)),
             (''Pause Score'', OutOfTen 1), (''Overall Score'', OutOfTen (77 / 100))]
   \<and> share_shown (Percent 50) = 1 / 2
   \<and> share_shown (OutOfTen (1 / 2)) = 1 / 20
   \<and> OutOfTen (1 / 2) \<noteq> OutOfTen (10 * (1 / 2))"
  by (simp add: analytics_scores_def performance_cards_def sample_props_def sample_scores_def
        performance_scores_def speaker_performance_def Math_round_def)

section \<open>The claims about the scoring engine\<close>

text \<open>The numbers of the spec's example scenario, as a check of the formulas.\<close>

lemma spec_examples:
  "half_range default_config = 70"
  "pace_score_of default_config 75 = 0"
  "pace_score_of default_config 120 = 4 / 7"
  "pace_score_of default_config 150 = 1"
  by (simp_all add: pace_score_of_def default_config_def half_range_def)

lemma pace_in_unit_interval: "0 < half_range cfg \<Longrightarrow> in_unit_interval (pace_score_of cfg wpm)"
  by (simp add: in_unit_interval_def pace_score_of_def)

lemma sum_list_nonneg_durations:
  "list_all (\<lambda>p. 0 \<le> duration p) ps \<Longrightarrow> 0 \<le> sum_list (map duration ps)"
  by (induction ps) auto

lemma pause_in_unit_interval:
  assumes "valid_stats stats"
  shows "in_unit_interval (pause_score_of stats)"
proof -
  from assms have "0 \<le> sum_list (map duration (pauses stats))" and "0 < total_duration stats"
    by (simp_all add: valid_stats_def sum_list_nonneg_durations)
  then have "0 \<le> sum_list (map duration (pauses stats)) / total_duration stats"
    by simp
  then show ?thesis
    by (simp add: in_unit_interval_def pause_score_of_def min_def)
qed

lemma overall_in_unit_interval:
  assumes "nonnegative_weights cfg"
      and "case weights cfg of (wp, wc, wq) \<Rightarrow> wp + wc + wq = 1"
      and "in_unit_interval p" and "in_unit_interval c" and "in_unit_interval q"
  shows "in_unit_interval (overall_score_of cfg p c q)"
proof -
  obtain wp wc wq where w: "weights cfg = (wp, wc, wq)"
    by (cases "weights cfg") auto
  with assms have nn: "0 \<le> wp" "0 \<le> wc" "0 \<le> wq" and s: "wp + wc + wq = 1"
    by (simp_all add: nonnegative_weights_def)
  from assms have b: "0 \<le> p" "p \<le> 1" "0 \<le> c" "c \<le> 1" "0 \<le> q" "q \<le> 1"
    by (simp_all add: in_unit_interval_def)
  have lo: "0 \<le> wp * p + wc * c + wq * q"
    using nn b by simp
  have "wp * p \<le> wp" "wc * c \<le> wc" "wq * q \<le> wq"
    using nn b by (simp_all add: mult_left_le)
  then have "wp * p + wc * c + wq * q \<le> wp + wc + wq"
    by simp
  with s lo show ?thesis
    by (simp add: in_unit_interval_def overall_score_of_def w)
qed

lemma default_config_valid:
  "valid_config default_config"
  "fst (pace_bounds default_config) < snd (pace_bounds default_config)"
  "nonnegative_weights default_config"
  by (simp_all add: valid_config_def nonnegative_weights_def default_config_def)

lemma speaker_B_score:
  "score_speaker speaker_B default_config =
     Inr \<lparr>pace_score = 4 / 7, confidence_score = 95 / 100, pause_score = 1,
          overall_score = 1139 / 1400, historical_comparison = None\<rparr>"
  by (simp add: score_speaker_def default_config_valid Let_def)
     (simp add: half_range_def default_config_def speaker_B_def pace_score_of_def
        confidence_score_of_def pause_score_of_def overall_score_of_def)

text \<open>
  C8. The pace score is symmetric around the ideal pace: at \<open>ideal - d\<close> and at
  \<open>ideal + d\<close> it is the same, for every deviation \<open>d\<close>, as a consequence of the
  formula: both are \<open>max 0 (1 - |d| / half_range)\<close>, which is positive within the bounds
  and 0 from the bounds on. So the engine gives two speakers who differ only in being
  \<open>d\<close> below and \<open>d\<close> above the ideal pace the same pace score (or fails on both).
\<close>

theorem pace_symmetry:
  "pace_score_of cfg (ideal_pace_wpm cfg - d) = pace_score_of cfg (ideal_pace_wpm cfg + d)
   \<and> pace_score_of cfg (ideal_pace_wpm cfg + d) = max 0 (1 - \<bar>d\<bar> / half_range cfg)
   \<and> map_sum id pace_score
         (score_speaker (stats\<lparr>words_per_minute := ideal_pace_wpm cfg - d\<rparr>) cfg)
       = map_sum id pace_score
           (score_speaker (stats\<lparr>words_per_minute := ideal_pace_wpm cfg + d\<rparr>) cfg)"
proof -
  have below: "pace_score_of cfg (ideal_pace_wpm cfg - d) = max 0 (1 - \<bar>d\<bar> / half_range cfg)"
    by (simp add: pace_score_of_def)
  have above: "pace_score_of cfg (ideal_pace_wpm cfg + d) = max 0 (1 - \<bar>d\<bar> / half_range cfg)"
    by (simp add: pace_score_of_def)
  have engine:
    "map_sum id pace_score
       (score_speaker (stats\<lparr>words_per_minute := ideal_pace_wpm cfg - d\<rparr>) cfg)
     = map_sum id pace_score
         (score_speaker (stats\<lparr>words_per_minute := ideal_pace_wpm cfg + d\<rparr>) cfg)"
    by (simp add: score_speaker_def Let_def below above)
  from below above engine show ?thesis
    by simp
qed

text \<open>
  C7, as the specification states it: for every valid input all four scores lie in
  [0,1]. The weights 2, -1/2 and -1/2 sum to 1, so the configuration is valid; for a
  speaker at the ideal pace with a mean confidence of 0.1 and no pause the overall
  score is 2 * 1 - 0.5 * 0.1 - 0.5 * 1 = 1.45.
\<close>

theorem negative_weights_break_bounds:
  "valid_config skewed_config \<and> valid_stats steady_stats
   \<and> score_speaker steady_stats skewed_config =
       Inr \<lparr>pace_score = 1, confidence_score = 1 / 10, pause_score = 1,
            overall_score = 29 / 20, historical_comparison = None\<rparr>
   \<and> \<not> scores_in_bounds
         \<lparr>pace_score = 1, confidence_score = 1 / 10, pause_score = 1,
          overall_score = 29 / 20, historical_comparison = None\<rparr>"
proof -
  have v: "valid_config skewed_config"
    by (simp add: valid_config_def skewed_config_def default_config_def)
  have s: "valid_stats steady_stats"
    by (simp add: valid_stats_def steady_stats_def)
  have "score_speaker steady_stats skewed_config =
       Inr \<lparr>pace_score = 1, confidence_score = 1 / 10, pause_score = 1,
            overall_score = 29 / 20, historical_comparison = None\<rparr>"
    by (simp add: score_speaker_def v Let_def)
       (simp add: half_range_def skewed_config_def default_config_def steady_stats_def
          pace_score_of_def confidence_score_of_def pause_score_of_def overall_score_of_def)
  with v s show ?thesis
    by (simp add: scores_in_bounds_def in_unit_interval_def)
qed

text \<open>
  C7, amended: for statistics as section 3 defines them and a valid configuration whose
  lower pace bound is below the upper one, the engine returns a score whose pace,
  confidence and pause scores lie in [0,1]; the overall score lies in [0,1] as well when
  none of the three weights is negative.
\<close>

theorem scores_within_unit_interval:
  assumes "valid_stats stats" and "valid_config cfg"
      and "fst (pace_bounds cfg) < snd (pace_bounds cfg)"
  shows "\<exists>sc. score_speaker stats cfg = Inr sc
              \<and> in_unit_interval (pace_score sc)
              \<and> in_unit_interval (confidence_score sc)
              \<and> in_unit_interval (pause_score sc)
              \<and> (nonnegative_weights cfg \<longrightarrow> in_unit_interval (overall_score sc))"
proof -
  from assms(3) have h: "0 < half_range cfg"
    by (simp add: half_range_def)
  from assms(1) have t: "total_duration stats \<noteq> 0"
    by (simp add: valid_stats_def)
  let ?p = "pace_score_of cfg (words_per_minute stats)"
  let ?c = "confidence_score_of stats"
  let ?q = "pause_score_of stats"
  have p: "in_unit_interval ?p"
    using h by (rule pace_in_unit_interval)
  have c: "in_unit_interval ?c"
    using assms(1) by (simp add: in_unit_interval_def confidence_score_of_def valid_stats_def)
  have q: "in_unit_interval ?q"
    using assms(1) by (rule pause_in_unit_interval)
  from assms(2) have "case weights cfg of (wp, wc, wq) \<Rightarrow> wp + wc + wq = 1"
    by (simp add: valid_config_def)
  then have o: "nonnegative_weights cfg \<longrightarrow> in_unit_interval (overall_score_of cfg ?p ?c ?q)"
    using p c q by (simp add: overall_in_unit_interval)
  have "score_speaker stats cfg =
          Inr \<lparr>pace_score = ?p, confidence_score = ?c, pause_score = ?q,
               overall_score = overall_score_of cfg ?p ?c ?q, historical_comparison = None\<rparr>"
    using assms(2) h t by (simp add: score_speaker_def Let_def)
  with p c q o show ?thesis
    by simp
qed

theorem scores_within_unit_interval_witness:
  "valid_stats speaker_B \<and> valid_config default_config
   \<and> fst (pace_bounds default_config) < snd (pace_bounds default_config)
   \<and> nonnegative_weights default_config
   \<and> score_speaker speaker_B default_config =
       Inr \<lparr>pace_score = 4 / 7, confidence_score = 95 / 100, pause_score = 1,
            overall_score = 1139 / 1400, historical_comparison = None\<rparr>
   \<and> scores_in_bounds
        \<lparr>pace_score = 4 / 7, confidence_score = 95 / 100, pause_score = 1,
         overall_score = 1139 / 1400, historical_comparison = None\<rparr>"
proof -
  have s: "valid_stats speaker_B"
    by (simp add: valid_stats_def speaker_B_def)
  from scores_within_unit_interval [OF s default_config_valid(1,2)]
  obtain sc where "score_speaker speaker_B default_config = Inr sc"
    and "in_unit_interval (pace_score sc)" and "in_unit_interval (confidence_score sc)"
    and "in_unit_interval (pause_score sc)"
    and "nonnegative_weights default_config \<longrightarrow> in_unit_interval (overall_score sc)"
    by blast
  with s default_config_valid show ?thesis
    by (simp add: speaker_B_score scores_in_bounds_def)
qed

end
